theory Spec2Isabelle
  imports Complex_Main "HOL-Library.Sublist"
begin

section \<open>The package initialisation of lsst.meas.extensions.photometryKron\<close>

text \<open>
  The source is the body of the package's \<^verbatim>\<open>__init__.py\<close>:
  \<^verbatim>\<open>
  from .kronLib import *
  from .version import *

  import lsst.meas.base
  lsst.meas.base.wrapSimpleAlgorithm(KronFluxAlgorithm, name="ext_photometryKron_KronFlux",
      Control=KronFluxControl, executionOrder=2.0, shouldApCorr=True)
  del lsst # cleanup namespace
  \<close>
  Five statements, run once, top to bottom, when the package is imported. The model
  below threads the interpreter's state through them; an exception is a value that
  ends the run.
\<close>

subsection \<open>Values, namespaces, exceptions\<close>

text \<open>
  The objects the body handles: classes (opaque, known by a name), string, float and
  boolean literals, module objects (known by their dotted name) and function objects.
  The float literal \<^verbatim>\<open>2.0\<close> is exact, no arithmetic is done on it, so it is the
  real number it denotes.
\<close>

datatype pyval =
    Class string
  | Str string
  | Float real
  | Bool bool
  | Module string
  | Function string

text \<open>A namespace is a Python dict from names to objects.\<close>

type_synonym namespace = "string \<rightharpoonup> pyval"

datatype error =
    ImportError string
  | NameError string
  | AttributeError string
  | TypeError string
  | RegistrationError string

subsection \<open>The registration call and the environment of the import\<close>

text \<open>
  The arguments of \<^verbatim>\<open>wrapSimpleAlgorithm\<close> as the body passes them: one positional
  argument (the algorithm class) and the keywords \<^verbatim>\<open>name\<close>, \<^verbatim>\<open>Control\<close>,
  \<^verbatim>\<open>executionOrder\<close>, \<^verbatim>\<open>shouldApCorr\<close>.
\<close>

record registration =
  AlgClass :: pyval
  name :: string
  Control :: pyval
  executionOrder :: real
  shouldApCorr :: bool

text \<open>
  The host's function is not part of this package: it is a parameter. Given the
  arguments and the host's registry it raises an exception or returns an object, and
  either way says how it has left the registry.
\<close>

type_synonym wrapper =
  "registration \<Rightarrow> registration list \<Rightarrow>
     error \<times> registration list + pyval \<times> registration list"

text \<open>
  What the body meets when it runs, and does not define:
  \<^item> \<open>kronLib\<close>: importing the companion module raises, or gives the names its
    star-import binds;
  \<^item> \<open>version\<close>: importing the version module raises, or gives its version identifier;
  \<^item> \<open>lsst_meas_base\<close>: importing the framework raises, or gives the module, which has
    the attribute \<^verbatim>\<open>wrapSimpleAlgorithm\<close> (with the behaviour given) or lacks it.
\<close>

record env =
  kronLib :: "error + namespace"
  version :: "error + string"
  lsst_meas_base :: "error + wrapper option"

subsection \<open>The interpreter's state\<close>

text \<open>
  \<open>trace\<close> is a ghost field: every statement that completes (and the registration call
  when it is made) appends its event, so that the order of the effects can be stated.
\<close>

datatype event =
    StarImport string
  | Import string
  | Call registration
  | Del string

record state =
  globals :: namespace
  sys_modules :: "string \<rightharpoonup> namespace"
  registry :: "registration list"
  trace :: "event list"

text \<open>A statement ends in an exception, with the state it leaves, or in a new state.\<close>

type_synonym result = "error \<times> state + state"

definition andThen :: "result \<Rightarrow> (state \<Rightarrow> result) \<Rightarrow> result" where
  "andThen r f = (case r of Inl x \<Rightarrow> Inl x | Inr s \<Rightarrow> f s)"

definition package :: string where
  "package = ''lsst.meas.extensions.photometryKron''"

definition attrs :: "state \<Rightarrow> string \<Rightarrow> namespace" where
  "attrs s q = (case sys_modules s q of None \<Rightarrow> Map.empty | Some ns \<Rightarrow> ns)"

subsection \<open>The statements\<close>

text \<open>
  \<^verbatim>\<open>from .m import *\<close>: the submodule is imported (an exception of its import
  propagates), it becomes an attribute of the package, which is the namespace the body
  runs in, and then every name it exports is bound, over what was bound before.
\<close>

definition from_import_star :: "string \<Rightarrow> error + namespace \<Rightarrow> state \<Rightarrow> result" where
  "from_import_star m loaded s =
     (case loaded of
        Inl e \<Rightarrow> Inl (e, s)
      | Inr exports \<Rightarrow>
          Inr (s\<lparr>sys_modules := (sys_modules s)(package @ ''.'' @ m \<mapsto> exports),
                 globals := (globals s)(m \<mapsto> Module (package @ ''.'' @ m)) ++ exports,
                 trace := trace s @ [StarImport m]\<rparr>))"

text \<open>
  Modelled from the spec: the version module is generated when the package is built
  and is not among the sources. The spec calls its symbol set "a version identifier";
  its star-import binds that identifier, the string \<open>v\<close>, and nothing else.
\<close>

definition version_symbols :: "string \<Rightarrow> namespace" where
  "version_symbols v = [''__version__'' \<mapsto> Str v]"

definition host_namespace :: "wrapper option \<Rightarrow> namespace" where
  "host_namespace w =
     (case w of
        None \<Rightarrow> Map.empty
      | Some _ \<Rightarrow> [''wrapSimpleAlgorithm'' \<mapsto> Function ''lsst.meas.base.wrapSimpleAlgorithm''])"

text \<open>
  \<^verbatim>\<open>import lsst.meas.base\<close>: the framework module is imported (an exception
  propagates), each module of the dotted path becomes an attribute of its parent, and
  the name \<^verbatim>\<open>lsst\<close> is bound to the top-level package. The parents \<^verbatim>\<open>lsst\<close> and
  \<^verbatim>\<open>lsst.meas\<close> are packages this one lives in; they keep the attributes they have.
\<close>

definition import_lsst_meas_base :: "env \<Rightarrow> state \<Rightarrow> result" where
  "import_lsst_meas_base env s =
     (case lsst_meas_base env of
        Inl e \<Rightarrow> Inl (e, s)
      | Inr w \<Rightarrow>
          Inr (s\<lparr>sys_modules := (sys_modules s)
                    (''lsst'' \<mapsto> (attrs s ''lsst'')(''meas'' \<mapsto> Module ''lsst.meas''),
                     ''lsst.meas'' \<mapsto> (attrs s ''lsst.meas'')(''base'' \<mapsto> Module ''lsst.meas.base''),
                     ''lsst.meas.base'' \<mapsto> host_namespace w),
                 globals := (globals s)(''lsst'' \<mapsto> Module ''lsst''),
                 trace := trace s @ [Import ''lsst.meas.base'']\<rparr>))"

text \<open>Reading a name: unbound is a NameError (none of the body's names is a builtin).\<close>

definition lookup_name :: "string \<Rightarrow> state \<Rightarrow> error + pyval" where
  "lookup_name x s = (case globals s x of None \<Rightarrow> Inl (NameError x) | Some v \<Rightarrow> Inr v)"

text \<open>Reading an attribute: of the objects handled here only modules carry any.\<close>

definition getattr :: "state \<Rightarrow> pyval \<Rightarrow> string \<Rightarrow> error + pyval" where
  "getattr s v a =
     (case v of
        Module q \<Rightarrow> (case attrs s q a of None \<Rightarrow> Inl (AttributeError a) | Some x \<Rightarrow> Inr x)
      | _ \<Rightarrow> Inl (AttributeError a))"

text \<open>
  Calling an object. The host's function runs on its registry; what it raises
  propagates, and what it returns is dropped: the call is an expression statement.
\<close>

definition call :: "env \<Rightarrow> pyval \<Rightarrow> registration \<Rightarrow> state \<Rightarrow> result" where
  "call env f args s =
     (case lsst_meas_base env of
        Inr (Some w) \<Rightarrow>
          if f = Function ''lsst.meas.base.wrapSimpleAlgorithm'' then
            (case w args (registry s) of
               Inl (e, r) \<Rightarrow> Inl (e, s\<lparr>registry := r, trace := trace s @ [Call args]\<rparr>)
             | Inr (ret, r) \<Rightarrow> Inr (s\<lparr>registry := r, trace := trace s @ [Call args]\<rparr>))
          else Inl (TypeError ''object is not callable'', s)
      | _ \<Rightarrow> Inl (TypeError ''object is not callable'', s))"

definition eval_then :: "error + pyval \<Rightarrow> state \<Rightarrow> (pyval \<Rightarrow> result) \<Rightarrow> result" where
  "eval_then r s k = (case r of Inl e \<Rightarrow> Inl (e, s) | Inr v \<Rightarrow> k v)"

text \<open>
  The registration statement. Python evaluates the callee first, then the positional
  argument, then the keyword arguments from left to right.
\<close>

definition register_KronFlux :: "env \<Rightarrow> state \<Rightarrow> result" where
  "register_KronFlux env s =
     eval_then (lookup_name ''lsst'' s) s (\<lambda>l.
     eval_then (getattr s l ''meas'') s (\<lambda>m.
     eval_then (getattr s m ''base'') s (\<lambda>b.
     eval_then (getattr s b ''wrapSimpleAlgorithm'') s (\<lambda>f.
     eval_then (lookup_name ''KronFluxAlgorithm'' s) s (\<lambda>a.
     eval_then (lookup_name ''KronFluxControl'' s) s (\<lambda>c.
       call env f \<lparr>AlgClass = a, name = ''ext_photometryKron_KronFlux'', Control = c,
                   executionOrder = 2.0, shouldApCorr = True\<rparr> s))))))"

text \<open>\<^verbatim>\<open>del x\<close>: the binding leaves the namespace; the object it named is untouched.\<close>

definition del_name :: "string \<Rightarrow> state \<Rightarrow> result" where
  "del_name x s =
     (case globals s x of
        None \<Rightarrow> Inl (NameError x, s)
      | Some _ \<Rightarrow> Inr (s\<lparr>globals := (globals s)(x := None), trace := trace s @ [Del x]\<rparr>))"

subsection \<open>The module body\<close>

definition module_body :: "env \<Rightarrow> state \<Rightarrow> result" where
  "module_body env s =
     andThen (andThen (andThen (andThen
       (from_import_star ''kronLib'' (kronLib env) s)
       (from_import_star ''version'' (map_sum id version_symbols (version env))))
       (import_lsst_meas_base env))
       (register_KronFlux env))
       (del_name ''lsst'')"

text \<open>
  Importing the package runs the body in a new module namespace, which holds only the
  attributes the import system sets (\<^verbatim>\<open>__name__\<close> stands for them), with the modules
  loaded so far and the host's registry as they are.
\<close>

definition initial :: "(string \<rightharpoonup> namespace) \<Rightarrow> registration list \<Rightarrow> state" where
  "initial mods reg =
     \<lparr>globals = [''__name__'' \<mapsto> Str package], sys_modules = mods, registry = reg, trace = []\<rparr>"

definition import_module :: "env \<Rightarrow> (string \<rightharpoonup> namespace) \<Rightarrow> registration list \<Rightarrow> result" where
  "import_module env mods reg = module_body env (initial mods reg)"

text \<open>The registration calls a run has made, in order.\<close>

fun calls :: "event list \<Rightarrow> registration list" where
  "calls [] = []"
| "calls (Call c # es) = c # calls es"
| "calls (_ # es) = calls es"

text \<open>The arguments of the one call, given the two classes.\<close>

definition the_call :: "pyval \<Rightarrow> pyval \<Rightarrow> registration" where
  "the_call a c = \<lparr>AlgClass = a, name = ''ext_photometryKron_KronFlux'', Control = c,
                   executionOrder = 2.0, shouldApCorr = True\<rparr>"

text \<open>The entry a registry holds under a name: the first one, if any.\<close>

definition entry :: "string \<Rightarrow> registration list \<Rightarrow> registration option" where
  "entry n r = find (\<lambda>e. name e = n) r"

subsection \<open>The host's registry\<close>

text \<open>
  Modelled from the spec: the host framework is another product and is not among the
  sources. The spec's registry holds the tuples (name, algorithm type, control type,
  executionOrder, shouldApCorr), keeps names unique, and rejects a duplicate name or a
  malformed control type. \<open>well_formed\<close> is the host's test of a control type and
  \<open>ret\<close> the object its function returns; the spec fixes neither.
\<close>

definition host_wrapSimpleAlgorithm :: "(pyval \<Rightarrow> bool) \<Rightarrow> pyval \<Rightarrow> wrapper" where
  "host_wrapSimpleAlgorithm well_formed ret c r =
     (if name c \<in> set (map name r) then Inl (RegistrationError ''duplicate name'', r)
      else if \<not> well_formed (Control c) then Inl (RegistrationError ''malformed control type'', r)
      else Inr (ret, r @ [c]))"

subsection \<open>The spec's order of effects\<close>

text \<open>
  The spec's control flow, in its words: (a) the two symbol sets are pulled in, (b) the
  framework is imported, (c) the registration entry point is invoked, (d) the framework
  reference is removed.
\<close>

definition spec_order :: "pyval \<Rightarrow> pyval \<Rightarrow> event list" where
  "spec_order a c =
     [StarImport ''kronLib'', StarImport ''version'', Import ''lsst.meas.base'',
      Call (the_call a c), Del ''lsst'']"

subsection \<open>The states between the statements\<close>

definition after_kronLib :: "namespace \<Rightarrow> (string \<rightharpoonup> namespace) \<Rightarrow> registration list \<Rightarrow> state" where
  "after_kronLib kx mods reg =
     \<lparr>globals = [''__name__'' \<mapsto> Str package](''kronLib'' \<mapsto> Module (package @ ''.kronLib'')) ++ kx,
      sys_modules = mods(package @ ''.kronLib'' \<mapsto> kx),
      registry = reg,
      trace = [StarImport ''kronLib'']\<rparr>"

definition after_version ::
  "namespace \<Rightarrow> string \<Rightarrow> (string \<rightharpoonup> namespace) \<Rightarrow> registration list \<Rightarrow> state" where
  "after_version kx v mods reg =
     \<lparr>globals = (globals (after_kronLib kx mods reg))
                  (''version'' \<mapsto> Module (package @ ''.version'')) ++ version_symbols v,
      sys_modules = (sys_modules (after_kronLib kx mods reg))(package @ ''.version'' \<mapsto> version_symbols v),
      registry = reg,
      trace = [StarImport ''kronLib'', StarImport ''version'']\<rparr>"

definition after_imports ::
  "namespace \<Rightarrow> string \<Rightarrow> wrapper option \<Rightarrow> (string \<rightharpoonup> namespace) \<Rightarrow> registration list \<Rightarrow> state" where
  "after_imports kx v w mods reg =
     \<lparr>globals = (globals (after_version kx v mods reg))(''lsst'' \<mapsto> Module ''lsst''),
      sys_modules = (sys_modules (after_version kx v mods reg))
         (''lsst'' \<mapsto> (attrs (after_version kx v mods reg) ''lsst'')(''meas'' \<mapsto> Module ''lsst.meas''),
          ''lsst.meas'' \<mapsto> (attrs (after_version kx v mods reg) ''lsst.meas'')(''base'' \<mapsto> Module ''lsst.meas.base''),
          ''lsst.meas.base'' \<mapsto> host_namespace w),
      registry = reg,
      trace = [StarImport ''kronLib'', StarImport ''version'', Import ''lsst.meas.base'']\<rparr>"

definition after_call :: "state \<Rightarrow> registration \<Rightarrow> registration list \<Rightarrow> state" where
  "after_call s c r = s\<lparr>registry := r, trace := trace s @ [Call c]\<rparr>"

definition after_del :: "state \<Rightarrow> state" where
  "after_del s = s\<lparr>globals := (globals s)(''lsst'' := None), trace := trace s @ [Del ''lsst'']\<rparr>"

subsection \<open>An environment to run the body in\<close>

text \<open>
  A companion module that exports the two classes, a version string, and a host whose
  function appends the entry and returns an object.
\<close>

definition KronFlux_exports :: namespace where
  "KronFlux_exports =
     [''KronFluxAlgorithm'' \<mapsto> Class ''KronFluxAlgorithm'',
      ''KronFluxControl'' \<mapsto> Class ''KronFluxControl'']"

definition appending_host :: wrapper where
  "appending_host c r = Inr (Class ''plugin'', r @ [c])"

definition rejecting_host :: wrapper where
  "rejecting_host c r = Inl (RegistrationError ''rejected'', r)"

definition usual_env :: "wrapper \<Rightarrow> env" where
  "usual_env f =
     \<lparr>kronLib = Inr KronFlux_exports, version = Inr ''10.1'', lsst_meas_base = Inr (Some f)\<rparr>"

text \<open>The spec's host, with every control type well formed.\<close>

definition spec_host :: wrapper where
  "spec_host = host_wrapSimpleAlgorithm (\<lambda>c. True) (Class ''plugin'')"

definition KronFlux_call :: registration where
  "KronFlux_call = the_call (Class ''KronFluxAlgorithm'') (Class ''KronFluxControl'')"

definition usual_final :: "wrapper \<Rightarrow> state" where
  "usual_final f =
     after_del (after_call (after_imports KronFlux_exports ''10.1'' (Some f) Map.empty [])
       KronFlux_call [KronFlux_call])"

text \<open>Environments in which one step fails.\<close>

definition no_kronLib :: env where
  "no_kronLib = (usual_env appending_host)\<lparr>kronLib := Inl (ImportError ''kronLib'')\<rparr>"

definition no_version :: env where
  "no_version = (usual_env appending_host)\<lparr>version := Inl (ImportError ''version'')\<rparr>"

definition no_framework :: env where
  "no_framework = (usual_env appending_host)\<lparr>lsst_meas_base := Inl (ImportError ''lsst.meas.base'')\<rparr>"


section \<open>Running the body\<close>

subsection \<open>Each statement on the state it meets\<close>

lemma star_kronLib:
  "from_import_star ''kronLib'' (Inr kx) (initial mods reg) = Inr (after_kronLib kx mods reg)"
  by (simp add: from_import_star_def initial_def after_kronLib_def)

lemma star_version:
  "from_import_star ''version'' (Inr (version_symbols v)) (after_kronLib kx mods reg)
     = Inr (after_version kx v mods reg)"
  by (simp add: from_import_star_def after_version_def after_kronLib_def)

lemma star_raises: "from_import_star m (Inl e) s = Inl (e, s)"
  by (simp add: from_import_star_def)

lemma import_host:
  "lsst_meas_base env = Inr w \<Longrightarrow>
     import_lsst_meas_base env (after_version kx v mods reg) = Inr (after_imports kx v w mods reg)"
  by (simp add: import_lsst_meas_base_def after_imports_def after_version_def)

lemma import_host_raises:
  "lsst_meas_base env = Inl e \<Longrightarrow> import_lsst_meas_base env s = Inl (e, s)"
  by (simp add: import_lsst_meas_base_def)

lemma globals_after_imports:
  "globals (after_imports kx v w mods reg) ''lsst'' = Some (Module ''lsst'')"
  "globals (after_imports kx v w mods reg) ''KronFluxAlgorithm'' = kx ''KronFluxAlgorithm''"
  "globals (after_imports kx v w mods reg) ''KronFluxControl'' = kx ''KronFluxControl''"
  by (simp_all add: after_imports_def after_version_def after_kronLib_def version_symbols_def
        map_add_def split: option.split)

lemma attrs_after_imports:
  "attrs (after_imports kx v w mods reg) ''lsst'' ''meas'' = Some (Module ''lsst.meas'')"
  "attrs (after_imports kx v w mods reg) ''lsst.meas'' ''base'' = Some (Module ''lsst.meas.base'')"
  "attrs (after_imports kx v w mods reg) ''lsst.meas.base'' = host_namespace w"
  by (simp_all add: attrs_def after_imports_def)

lemma register_after_imports:
  assumes "lsst_meas_base env = Inr w"
  shows "register_KronFlux env (after_imports kx v w mods reg) =
     (case w of
        None \<Rightarrow> Inl (AttributeError ''wrapSimpleAlgorithm'', after_imports kx v w mods reg)
      | Some f \<Rightarrow>
     (case kx ''KronFluxAlgorithm'' of
        None \<Rightarrow> Inl (NameError ''KronFluxAlgorithm'', after_imports kx v w mods reg)
      | Some a \<Rightarrow>
     (case kx ''KronFluxControl'' of
        None \<Rightarrow> Inl (NameError ''KronFluxControl'', after_imports kx v w mods reg)
      | Some c \<Rightarrow>
     (case f (the_call a c) reg of
        Inl (e, r) \<Rightarrow> Inl (e, after_call (after_imports kx v w mods reg) (the_call a c) r)
      | Inr (ret, r) \<Rightarrow> Inr (after_call (after_imports kx v w mods reg) (the_call a c) r)))))"
proof -
  have reg: "\<And>w. registry (after_imports kx v w mods reg) = reg"
    by (simp add: after_imports_def)
  have ev: "\<And>x s k. eval_then (Inr x) s k = k x" "\<And>e s k. eval_then (Inl e) s k = Inl (e, s)"
    by (simp_all add: eval_then_def)
  have ga: "\<And>s q a. getattr s (Module q) a =
      (case attrs s q a of None \<Rightarrow> Inl (AttributeError a) | Some x \<Rightarrow> Inr x)"
    by (simp add: getattr_def)
  show ?thesis
  proof (cases w)
    case None
    then show ?thesis
      by (simp add: register_KronFlux_def lookup_name_def globals_after_imports ev ga
            attrs_after_imports host_namespace_def)
  next
    case (Some f)
    then show ?thesis
      by (auto simp add: register_KronFlux_def lookup_name_def globals_after_imports ev ga
            attrs_after_imports host_namespace_def call_def assms reg the_call_def after_call_def
            split: option.split sum.split prod.split)
  qed
qed

lemma del_after_call:
  "del_name ''lsst'' (after_call (after_imports kx v w mods reg) c r)
     = Inr (after_del (after_call (after_imports kx v w mods reg) c r))"
  by (simp add: del_name_def after_call_def after_del_def globals_after_imports)

lemma import_module_eq:
  "import_module env mods reg =
     (case kronLib env of
        Inl e \<Rightarrow> Inl (e, initial mods reg)
      | Inr kx \<Rightarrow>
     (case version env of
        Inl e \<Rightarrow> Inl (e, after_kronLib kx mods reg)
      | Inr v \<Rightarrow>
     (case lsst_meas_base env of
        Inl e \<Rightarrow> Inl (e, after_version kx v mods reg)
      | Inr w \<Rightarrow>
     (case w of
        None \<Rightarrow> Inl (AttributeError ''wrapSimpleAlgorithm'', after_imports kx v w mods reg)
      | Some f \<Rightarrow>
     (case kx ''KronFluxAlgorithm'' of
        None \<Rightarrow> Inl (NameError ''KronFluxAlgorithm'', after_imports kx v w mods reg)
      | Some a \<Rightarrow>
     (case kx ''KronFluxControl'' of
        None \<Rightarrow> Inl (NameError ''KronFluxControl'', after_imports kx v w mods reg)
      | Some c \<Rightarrow>
     (case f (the_call a c) reg of
        Inl (e, r) \<Rightarrow> Inl (e, after_call (after_imports kx v w mods reg) (the_call a c) r)
      | Inr (ret, r) \<Rightarrow>
          Inr (after_del (after_call (after_imports kx v w mods reg) (the_call a c) r)))))))))"
proof (cases "kronLib env")
  case (Inl e)
  then show ?thesis
    by (simp add: import_module_def module_body_def andThen_def star_raises)
next
  case kx: (Inr kx)
  show ?thesis
  proof (cases "version env")
    case (Inl e)
    then show ?thesis
      by (simp add: import_module_def module_body_def andThen_def kx star_kronLib star_raises)
  next
    case v: (Inr v)
    show ?thesis
    proof (cases "lsst_meas_base env")
      case (Inl e)
      then show ?thesis
        by (simp add: import_module_def module_body_def andThen_def kx v star_kronLib
              star_version import_host_raises)
    next
      case w: (Inr w)
      have "import_module env mods reg =
              andThen (register_KronFlux env (after_imports kx v w mods reg)) (del_name ''lsst'')"
        by (simp add: import_module_def module_body_def andThen_def kx v star_kronLib
              star_version import_host [OF w])
      also have "\<dots> = (case w of
        None \<Rightarrow> Inl (AttributeError ''wrapSimpleAlgorithm'', after_imports kx v w mods reg)
      | Some f \<Rightarrow>
     (case kx ''KronFluxAlgorithm'' of
        None \<Rightarrow> Inl (NameError ''KronFluxAlgorithm'', after_imports kx v w mods reg)
      | Some a \<Rightarrow>
     (case kx ''KronFluxControl'' of
        None \<Rightarrow> Inl (NameError ''KronFluxControl'', after_imports kx v w mods reg)
      | Some c \<Rightarrow>
     (case f (the_call a c) reg of
        Inl (e, r) \<Rightarrow> Inl (e, after_call (after_imports kx v w mods reg) (the_call a c) r)
      | Inr (ret, r) \<Rightarrow>
          Inr (after_del (after_call (after_imports kx v w mods reg) (the_call a c) r))))))"
        unfolding register_after_imports [OF w]
        by (auto simp add: andThen_def del_after_call split: option.split sum.split prod.split)
      finally show ?thesis by (simp add: kx v w)
    qed
  qed
qed

lemma import_module_Inr:
  "import_module env mods reg = Inr s' \<longleftrightarrow>
     (\<exists>kx v f a c ret r.
        kronLib env = Inr kx \<and> version env = Inr v \<and> lsst_meas_base env = Inr (Some f) \<and>
        kx ''KronFluxAlgorithm'' = Some a \<and> kx ''KronFluxControl'' = Some c \<and>
        f (the_call a c) reg = Inr (ret, r) \<and>
        s' = after_del (after_call (after_imports kx v (Some f) mods reg) (the_call a c) r))"
  by (auto simp add: import_module_eq split: sum.splits option.splits prod.splits)

lemma final_fields:
  "registry (after_del (after_call s c r)) = r"
  "trace (after_del (after_call (after_imports kx v w mods reg) c r)) =
     [StarImport ''kronLib'', StarImport ''version'', Import ''lsst.meas.base'', Call c, Del ''lsst'']"
  "globals (after_del s) ''lsst'' = None"
  "sys_modules (after_del (after_call (after_imports kx v w mods reg) c r)) ''lsst.meas.base''
     = Some (host_namespace w)"
  by (simp_all add: after_del_def after_call_def after_imports_def)

lemma usual_run:
  "f KronFlux_call [] = Inr (ret, [KronFlux_call]) \<Longrightarrow>
     import_module (usual_env f) Map.empty [] = Inr (usual_final f)"
  by (simp add: import_module_eq usual_env_def usual_final_def KronFlux_exports_def KronFlux_call_def)

subsection \<open>The call, the entry and the host of the spec\<close>

lemma calls_final:
  "calls [StarImport ''kronLib'', StarImport ''version'', Import ''lsst.meas.base'', Call c, Del ''lsst''] = [c]"
  by simp

lemma the_call_fields:
  "name (the_call a c) = ''ext_photometryKron_KronFlux''"
  "AlgClass (the_call a c) = a"
  "Control (the_call a c) = c"
  "executionOrder (the_call a c) = 2.0"
  "shouldApCorr (the_call a c) = True"
  by (simp_all add: the_call_def)

lemma host_accepts:
  "host_wrapSimpleAlgorithm ok ret c r = Inr (x, r') \<longleftrightarrow>
     name c \<notin> set (map name r) \<and> ok (Control c) \<and> x = ret \<and> r' = r @ [c]"
  by (auto simp: host_wrapSimpleAlgorithm_def)

lemma entry_new:
  "name c \<notin> set (map name r) \<Longrightarrow> entry (name c) (r @ [c]) = Some c"
  by (induction r) (auto simp: entry_def)

lemma filter_new:
  "name c \<notin> set (map name r) \<Longrightarrow> filter (\<lambda>e. name e = name c) (r @ [c]) = [c]"
  by (induction r) auto

lemma spec_host_run:
  "import_module (usual_env spec_host) Map.empty [] = Inr (usual_final spec_host)"
  by (rule usual_run [where ret = "Class ''plugin''"])
     (simp add: spec_host_def host_wrapSimpleAlgorithm_def)

lemma spec_host_env:
  "lsst_meas_base (usual_env spec_host)
     = Inr (Some (host_wrapSimpleAlgorithm (\<lambda>c. True) (Class ''plugin'')))"
  by (simp add: usual_env_def spec_host_def)

subsection \<open>Runs that complete\<close>

lemma success_shape:
  assumes "import_module env mods reg = Inr s'"
  shows "\<exists>kx v f a c ret.
    kronLib env = Inr kx \<and> version env = Inr v \<and> lsst_meas_base env = Inr (Some f) \<and>
    kx ''KronFluxAlgorithm'' = Some a \<and> kx ''KronFluxControl'' = Some c \<and>
    f (the_call a c) reg = Inr (ret, registry s') \<and>
    calls (trace s') = [the_call a c] \<and>
    trace s' = spec_order a c \<and>
    (\<forall>ok ret'. f = host_wrapSimpleAlgorithm ok ret' \<longrightarrow>
       entry ''ext_photometryKron_KronFlux'' (registry s') = Some (the_call a c))"
proof -
  from assms obtain kx v f a c ret r where
    env: "kronLib env = Inr kx" "version env = Inr v" "lsst_meas_base env = Inr (Some f)"
      "kx ''KronFluxAlgorithm'' = Some a" "kx ''KronFluxControl'' = Some c" and
    call: "f (the_call a c) reg = Inr (ret, r)" and
    s': "s' = after_del (after_call (after_imports kx v (Some f) mods reg) (the_call a c) r)"
    unfolding import_module_Inr by blast
  have r: "registry s' = r" and tr: "trace s' = spec_order a c"
    by (simp_all add: s' final_fields spec_order_def)
  have "entry ''ext_photometryKron_KronFlux'' (registry s') = Some (the_call a c)"
    if "f = host_wrapSimpleAlgorithm ok ret'" for ok ret'
  proof -
    from that call have new: "name (the_call a c) \<notin> set (map name reg)"
      and r': "r = reg @ [the_call a c]"
      by (simp_all add: host_accepts)
    from entry_new [OF new] show ?thesis
      by (simp add: r r' the_call_fields)
  qed
  with env call r tr show ?thesis
    by (auto simp: spec_order_def)
qed

lemma host_namespace_Some: "host_namespace (Some f) = host_namespace (Some g)"
  by (simp add: host_namespace_def)

lemma after_imports_host: "after_imports kx v (Some f) mods reg = after_imports kx v (Some g) mods reg"
  by (simp add: after_imports_def host_namespace_Some [of f g])

lemma dom_final:
  "dom (globals (after_del (after_call (after_imports kx v w mods reg) c r)))
     = ({''__name__'', ''kronLib'', ''version'', ''__version__''} \<union> dom kx) - {''lsst''}"
  by (auto simp add: after_del_def after_call_def after_imports_def after_version_def
        after_kronLib_def version_symbols_def map_add_def split: option.splits if_splits)

lemma appending_run:
  "import_module (usual_env appending_host) Map.empty [] = Inr (usual_final appending_host)"
  by (rule usual_run [where ret = "Class ''plugin''"]) (simp add: appending_host_def)

subsection \<open>Runs that fail\<close>

lemma stage_fields:
  "trace (initial mods reg) = []" "registry (initial mods reg) = reg"
  "trace (after_kronLib kx mods reg) = [StarImport ''kronLib'']"
  "registry (after_kronLib kx mods reg) = reg"
  "trace (after_version kx v mods reg) = [StarImport ''kronLib'', StarImport ''version'']"
  "registry (after_version kx v mods reg) = reg"
  "trace (after_imports kx v w mods reg)
     = [StarImport ''kronLib'', StarImport ''version'', Import ''lsst.meas.base'']"
  "registry (after_imports kx v w mods reg) = reg"
  "trace (after_call s c r) = trace s @ [Call c]"
  "registry (after_call s c r) = r"
  "globals (after_call s c r) = globals s"
  by (simp_all add: initial_def after_kronLib_def after_version_def after_imports_def after_call_def)

lemma failure_shape:
  assumes "import_module env mods reg = Inl (e, sf)"
  shows "trace sf = [] \<or> trace sf = [StarImport ''kronLib''] \<or>
     trace sf = [StarImport ''kronLib'', StarImport ''version''] \<or>
     trace sf = [StarImport ''kronLib'', StarImport ''version'', Import ''lsst.meas.base''] \<or>
     (\<exists>a c. trace sf = [StarImport ''kronLib'', StarImport ''version'', Import ''lsst.meas.base'',
                         Call (the_call a c)])"
  using assms unfolding import_module_eq
  by (fastforce simp add: stage_fields split: sum.splits option.splits prod.splits)

lemma rejecting_run:
  "\<exists>sf. import_module (usual_env rejecting_host) Map.empty []
          = Inl (RegistrationError ''rejected'', sf) \<and>
        trace sf = [StarImport ''kronLib'', StarImport ''version'', Import ''lsst.meas.base'',
                    Call KronFlux_call] \<and>
        globals sf ''lsst'' = Some (Module ''lsst'')"
  by (simp add: import_module_eq usual_env_def KronFlux_exports_def rejecting_host_def
        KronFlux_call_def stage_fields globals_after_imports)

section \<open>The claims\<close>

text \<open>
  C1. After the import the host's registry holds exactly one entry named
  \<^verbatim>\<open>ext_photometryKron_KronFlux\<close>: the body makes one registration call, under that
  name, and no other.
\<close>

theorem one_entry_named_KronFlux:
  assumes "import_module env mods reg = Inr s'"
  shows "map name (calls (trace s')) = [''ext_photometryKron_KronFlux''] \<and>
         (\<forall>ok ret. lsst_meas_base env = Inr (Some (host_wrapSimpleAlgorithm ok ret)) \<longrightarrow>
            length (filter (\<lambda>e. name e = ''ext_photometryKron_KronFlux'') (registry s')) = 1)"
proof -
  from assms obtain kx v f a c ret r where
    f: "lsst_meas_base env = Inr (Some f)" and
    call: "f (the_call a c) reg = Inr (ret, r)" and
    s': "s' = after_del (after_call (after_imports kx v (Some f) mods reg) (the_call a c) r)"
    unfolding import_module_Inr by blast
  have "map name (calls (trace s')) = [''ext_photometryKron_KronFlux'']"
    by (simp add: s' final_fields the_call_fields)
  moreover have "length (filter (\<lambda>e. name e = ''ext_photometryKron_KronFlux'') (registry s')) = 1"
    if "lsst_meas_base env = Inr (Some (host_wrapSimpleAlgorithm ok ret'))" for ok ret'
  proof -
    from that f have "f = host_wrapSimpleAlgorithm ok ret'" by simp
    with call have new: "name (the_call a c) \<notin> set (map name reg)" and r: "r = reg @ [the_call a c]"
      by (simp_all add: host_accepts)
    have "filter (\<lambda>e. name e = name (the_call a c)) (reg @ [the_call a c]) = [the_call a c]"
      using new by (rule filter_new)
    then show ?thesis
      by (simp add: s' final_fields r the_call_fields)
  qed
  ultimately show ?thesis by blast
qed

theorem one_entry_named_KronFlux_witness:
  "import_module (usual_env spec_host) Map.empty [] = Inr (usual_final spec_host) \<and>
   map name (calls (trace (usual_final spec_host))) = [''ext_photometryKron_KronFlux''] \<and>
   length (filter (\<lambda>e. name e = ''ext_photometryKron_KronFlux'')
     (registry (usual_final spec_host))) = 1"
  using one_entry_named_KronFlux [OF spec_host_run] spec_host_run spec_host_env by blast

text \<open>
  C2. The execution order passed to the registration call, and so recorded for the
  entry \<^verbatim>\<open>ext_photometryKron_KronFlux\<close>, is 2.0.
\<close>

theorem executionOrder_is_2:
  assumes "import_module env mods reg = Inr s'"
  shows "(\<exists>c. calls (trace s') = [c] \<and> name c = ''ext_photometryKron_KronFlux'' \<and>
              executionOrder c = 2.0) \<and>
         (\<forall>ok ret. lsst_meas_base env = Inr (Some (host_wrapSimpleAlgorithm ok ret)) \<longrightarrow>
            map_option executionOrder (entry ''ext_photometryKron_KronFlux'' (registry s'))
              = Some 2.0)"
  using success_shape [OF assms] by (fastforce simp: the_call_fields)

theorem executionOrder_is_2_witness:
  "import_module (usual_env spec_host) Map.empty [] = Inr (usual_final spec_host) \<and>
   (\<exists>c. calls (trace (usual_final spec_host)) = [c] \<and> name c = ''ext_photometryKron_KronFlux'' \<and>
        executionOrder c = 2.0) \<and>
   map_option executionOrder (entry ''ext_photometryKron_KronFlux'' (registry (usual_final spec_host)))
     = Some 2.0"
  using executionOrder_is_2 [OF spec_host_run] spec_host_run spec_host_env by blast

text \<open>
  C3. The aperture-correction flag passed to the registration call, and so recorded for
  the entry \<^verbatim>\<open>ext_photometryKron_KronFlux\<close>, is true.
\<close>

theorem shouldApCorr_is_True:
  assumes "import_module env mods reg = Inr s'"
  shows "(\<exists>c. calls (trace s') = [c] \<and> name c = ''ext_photometryKron_KronFlux'' \<and>
              shouldApCorr c = True) \<and>
         (\<forall>ok ret. lsst_meas_base env = Inr (Some (host_wrapSimpleAlgorithm ok ret)) \<longrightarrow>
            map_option shouldApCorr (entry ''ext_photometryKron_KronFlux'' (registry s'))
              = Some True)"
  using success_shape [OF assms] by (fastforce simp: the_call_fields)

theorem shouldApCorr_is_True_witness:
  "import_module (usual_env spec_host) Map.empty [] = Inr (usual_final spec_host) \<and>
   (\<exists>c. calls (trace (usual_final spec_host)) = [c] \<and> name c = ''ext_photometryKron_KronFlux'' \<and>
        shouldApCorr c = True) \<and>
   map_option shouldApCorr (entry ''ext_photometryKron_KronFlux'' (registry (usual_final spec_host)))
     = Some True"
  using shouldApCorr_is_True [OF spec_host_run] spec_host_run spec_host_env by blast

text \<open>
  C4. The configuration type bound to the entry is the object the companion module
  exports as \<^verbatim>\<open>KronFluxControl\<close>, and the algorithm type is the one it exports as
  \<^verbatim>\<open>KronFluxAlgorithm\<close>.
\<close>

theorem classes_come_from_kronLib:
  assumes "import_module env mods reg = Inr s'"
  shows "\<exists>kx a c.
           kronLib env = Inr kx \<and> kx ''KronFluxAlgorithm'' = Some a \<and>
           kx ''KronFluxControl'' = Some c \<and>
           (\<exists>x. calls (trace s') = [x] \<and> name x = ''ext_photometryKron_KronFlux'' \<and>
                Control x = c \<and> AlgClass x = a) \<and>
           (\<forall>ok ret. lsst_meas_base env = Inr (Some (host_wrapSimpleAlgorithm ok ret)) \<longrightarrow>
              map_option Control (entry ''ext_photometryKron_KronFlux'' (registry s')) = Some c \<and>
              map_option AlgClass (entry ''ext_photometryKron_KronFlux'' (registry s')) = Some a)"
  using success_shape [OF assms] by (fastforce simp: the_call_fields)

theorem classes_come_from_kronLib_witness:
  "import_module (usual_env spec_host) Map.empty [] = Inr (usual_final spec_host) \<and>
   kronLib (usual_env spec_host) = Inr KronFlux_exports \<and>
   KronFlux_exports ''KronFluxAlgorithm'' = Some (Class ''KronFluxAlgorithm'') \<and>
   KronFlux_exports ''KronFluxControl'' = Some (Class ''KronFluxControl'') \<and>
   map_option Control (entry ''ext_photometryKron_KronFlux'' (registry (usual_final spec_host)))
     = Some (Class ''KronFluxControl'') \<and>
   map_option AlgClass (entry ''ext_photometryKron_KronFlux'' (registry (usual_final spec_host)))
     = Some (Class ''KronFluxAlgorithm'')"
proof -
  have kx: "kronLib (usual_env spec_host) = Inr KronFlux_exports"
    by (simp add: usual_env_def)
  have names: "KronFlux_exports ''KronFluxAlgorithm'' = Some (Class ''KronFluxAlgorithm'')"
    "KronFlux_exports ''KronFluxControl'' = Some (Class ''KronFluxControl'')"
    by (simp_all add: KronFlux_exports_def)
  from classes_come_from_kronLib [OF spec_host_run] kx names spec_host_env spec_host_run
  show ?thesis by auto
qed

text \<open>
  C5. The import makes exactly one registration call on the host's registry; besides the
  symbols it binds, that is its only effect. What the call returns is dropped, and the
  body does nothing to the registry afterwards.
\<close>

theorem one_call_is_the_only_effect:
  assumes "import_module env mods reg = Inr s'"
  shows "\<exists>kx f c ret.
           kronLib env = Inr kx \<and> lsst_meas_base env = Inr (Some f) \<and>
           calls (trace s') = [c] \<and>
           f c reg = Inr (ret, registry s') \<and>
           dom (globals s') =
             ({''__name__'', ''kronLib'', ''version'', ''__version__''} \<union> dom kx) - {''lsst''} \<and>
           (\<forall>g. import_module
                  (env\<lparr>lsst_meas_base :=
                         Inr (Some (\<lambda>c r. map_sum id (\<lambda>(x, r'). (g x, r')) (f c r)))\<rparr>)
                  mods reg = Inr s')"
proof -
  from assms obtain kx v f a c ret r where
    env: "kronLib env = Inr kx" "version env = Inr v" "lsst_meas_base env = Inr (Some f)"
      "kx ''KronFluxAlgorithm'' = Some a" "kx ''KronFluxControl'' = Some c" and
    call: "f (the_call a c) reg = Inr (ret, r)" and
    s': "s' = after_del (after_call (after_imports kx v (Some f) mods reg) (the_call a c) r)"
    unfolding import_module_Inr by blast
  have "import_module
          (env\<lparr>lsst_meas_base := Inr (Some (\<lambda>c r. map_sum id (\<lambda>(x, r'). (g x, r')) (f c r)))\<rparr>)
          mods reg = Inr s'" for g
  proof -
    have same: "after_imports kx v (Some (\<lambda>c r. map_sum id (\<lambda>(x, r'). (g x, r')) (f c r))) mods reg
        = after_imports kx v (Some f) mods reg"
      by (rule after_imports_host)
    show ?thesis
      by (simp add: import_module_eq env call s' same)
  qed
  moreover have "calls (trace s') = [the_call a c]" "registry s' = r"
    by (simp_all add: s' final_fields)
  moreover have "dom (globals s') =
      ({''__name__'', ''kronLib'', ''version'', ''__version__''} \<union> dom kx) - {''lsst''}"
    unfolding s' by (rule dom_final)
  ultimately show ?thesis
    using env call by blast
qed

theorem one_call_is_the_only_effect_witness:
  "import_module (usual_env appending_host) Map.empty [] = Inr (usual_final appending_host) \<and>
   calls (trace (usual_final appending_host)) = [KronFlux_call] \<and>
   appending_host KronFlux_call [] = Inr (Class ''plugin'', registry (usual_final appending_host)) \<and>
   import_module
     (usual_env appending_host
        \<lparr>lsst_meas_base :=
           Inr (Some (\<lambda>c r. map_sum id (\<lambda>(x, r'). (Str ''dropped'', r')) (appending_host c r)))\<rparr>)
     Map.empty [] = Inr (usual_final appending_host)"
proof -
  have f: "lsst_meas_base (usual_env appending_host) = Inr (Some appending_host)"
    by (simp add: usual_env_def)
  from one_call_is_the_only_effect [OF appending_run] f
  have "\<forall>g. import_module
     (usual_env appending_host
        \<lparr>lsst_meas_base :=
           Inr (Some (\<lambda>c r. map_sum id (\<lambda>(x, r'). (g x, r')) (appending_host c r)))\<rparr>)
     Map.empty [] = Inr (usual_final appending_host)"
    by (elim exE conjE) simp
  then have "import_module
     (usual_env appending_host
        \<lparr>lsst_meas_base :=
           Inr (Some (\<lambda>c r. map_sum id (\<lambda>(x, r'). (Str ''dropped'', r')) (appending_host c r)))\<rparr>)
     Map.empty [] = Inr (usual_final appending_host)"
    by (rule spec [where x = "\<lambda>_. Str ''dropped''"])
  moreover have "calls (trace (usual_final appending_host)) = [KronFlux_call]"
    "appending_host KronFlux_call [] = Inr (Class ''plugin'', registry (usual_final appending_host))"
    by (simp_all add: usual_final_def final_fields appending_host_def)
  ultimately show ?thesis
    using appending_run by simp
qed

text \<open>
  C6. A failure of the import of the companion modules or of the framework, and a
  rejection by the host's registration, each reach the importer as they were raised and
  end the initialisation there: the body handles no exception.
\<close>

theorem failures_propagate:
  "(\<forall>e. kronLib env = Inl e \<longrightarrow>
       (\<exists>sf. import_module env mods reg = Inl (e, sf) \<and> trace sf = [])) \<and>
   (\<forall>kx e. kronLib env = Inr kx \<and> version env = Inl e \<longrightarrow>
       (\<exists>sf. import_module env mods reg = Inl (e, sf) \<and> trace sf = [StarImport ''kronLib''])) \<and>
   (\<forall>kx v e. kronLib env = Inr kx \<and> version env = Inr v \<and> lsst_meas_base env = Inl e \<longrightarrow>
       (\<exists>sf. import_module env mods reg = Inl (e, sf) \<and>
             trace sf = [StarImport ''kronLib'', StarImport ''version''])) \<and>
   (\<forall>kx v f a c e r.
       kronLib env = Inr kx \<and> version env = Inr v \<and> lsst_meas_base env = Inr (Some f) \<and>
       kx ''KronFluxAlgorithm'' = Some a \<and> kx ''KronFluxControl'' = Some c \<and>
       f (the_call a c) reg = Inl (e, r) \<longrightarrow>
       (\<exists>sf. import_module env mods reg = Inl (e, sf) \<and>
             trace sf = [StarImport ''kronLib'', StarImport ''version'', Import ''lsst.meas.base'',
                         Call (the_call a c)] \<and>
             registry sf = r \<and> globals sf ''lsst'' = Some (Module ''lsst''))) \<and>
   (\<forall>e sf. import_module env mods reg = Inl (e, sf) \<longrightarrow> Del ''lsst'' \<notin> set (trace sf))"
proof (intro conjI allI impI)
  fix e assume "kronLib env = Inl e"
  then show "\<exists>sf. import_module env mods reg = Inl (e, sf) \<and> trace sf = []"
    by (simp add: import_module_eq stage_fields)
next
  fix kx e assume "kronLib env = Inr kx \<and> version env = Inl e"
  then show "\<exists>sf. import_module env mods reg = Inl (e, sf) \<and> trace sf = [StarImport ''kronLib'']"
    by (simp add: import_module_eq stage_fields)
next
  fix kx v e assume "kronLib env = Inr kx \<and> version env = Inr v \<and> lsst_meas_base env = Inl e"
  then show "\<exists>sf. import_module env mods reg = Inl (e, sf) \<and>
             trace sf = [StarImport ''kronLib'', StarImport ''version'']"
    by (simp add: import_module_eq stage_fields)
next
  fix kx v f a c e r
  assume "kronLib env = Inr kx \<and> version env = Inr v \<and> lsst_meas_base env = Inr (Some f) \<and>
       kx ''KronFluxAlgorithm'' = Some a \<and> kx ''KronFluxControl'' = Some c \<and>
       f (the_call a c) reg = Inl (e, r)"
  then show "\<exists>sf. import_module env mods reg = Inl (e, sf) \<and>
             trace sf = [StarImport ''kronLib'', StarImport ''version'', Import ''lsst.meas.base'',
                         Call (the_call a c)] \<and>
             registry sf = r \<and> globals sf ''lsst'' = Some (Module ''lsst'')"
    by (simp add: import_module_eq stage_fields globals_after_imports)
next
  fix e sf assume "import_module env mods reg = Inl (e, sf)"
  from failure_shape [OF this] show "Del ''lsst'' \<notin> set (trace sf)"
    by auto
qed

theorem failures_propagate_witness:
  "(\<exists>sf. import_module no_kronLib Map.empty [] = Inl (ImportError ''kronLib'', sf) \<and> trace sf = []) \<and>
   (\<exists>sf. import_module no_version Map.empty [] = Inl (ImportError ''version'', sf) \<and>
         trace sf = [StarImport ''kronLib'']) \<and>
   (\<exists>sf. import_module no_framework Map.empty [] = Inl (ImportError ''lsst.meas.base'', sf) \<and>
         trace sf = [StarImport ''kronLib'', StarImport ''version'']) \<and>
   (\<exists>sf. import_module (usual_env rejecting_host) Map.empty []
           = Inl (RegistrationError ''rejected'', sf) \<and>
         trace sf = [StarImport ''kronLib'', StarImport ''version'', Import ''lsst.meas.base'',
                     Call KronFlux_call] \<and>
         globals sf ''lsst'' = Some (Module ''lsst'') \<and>
         Del ''lsst'' \<notin> set (trace sf))"
proof -
  have 1: "kronLib no_kronLib = Inl (ImportError ''kronLib'')"
    by (simp add: no_kronLib_def)
  have 2: "kronLib no_version = Inr KronFlux_exports \<and> version no_version = Inl (ImportError ''version'')"
    by (simp add: no_version_def usual_env_def)
  have 3: "kronLib no_framework = Inr KronFlux_exports \<and> version no_framework = Inr ''10.1'' \<and>
           lsst_meas_base no_framework = Inl (ImportError ''lsst.meas.base'')"
    by (simp add: no_framework_def usual_env_def)
  have 4: "kronLib (usual_env rejecting_host) = Inr KronFlux_exports \<and>
           version (usual_env rejecting_host) = Inr ''10.1'' \<and>
           lsst_meas_base (usual_env rejecting_host) = Inr (Some rejecting_host) \<and>
           KronFlux_exports ''KronFluxAlgorithm'' = Some (Class ''KronFluxAlgorithm'') \<and>
           KronFlux_exports ''KronFluxControl'' = Some (Class ''KronFluxControl'') \<and>
           rejecting_host (the_call (Class ''KronFluxAlgorithm'') (Class ''KronFluxControl'')) []
             = Inl (RegistrationError ''rejected'', [])"
    by (simp add: usual_env_def KronFlux_exports_def rejecting_host_def)
  note a = failures_propagate [of no_kronLib Map.empty "[]", THEN conjunct1, rule_format, OF 1]
  note b = failures_propagate [of no_version Map.empty "[]", THEN conjunct2, THEN conjunct1,
             rule_format, OF 2]
  note c = failures_propagate [of no_framework Map.empty "[]", THEN conjunct2, THEN conjunct2,
             THEN conjunct1, rule_format, OF 3]
  note d = failures_propagate [of "usual_env rejecting_host" Map.empty "[]", THEN conjunct2,
             THEN conjunct2, THEN conjunct2, THEN conjunct1, rule_format, OF 4]
  note e = failures_propagate [of "usual_env rejecting_host" Map.empty "[]", THEN conjunct2,
             THEN conjunct2, THEN conjunct2, THEN conjunct2, rule_format]
  from d e have "\<exists>sf. import_module (usual_env rejecting_host) Map.empty []
           = Inl (RegistrationError ''rejected'', sf) \<and>
         trace sf = [StarImport ''kronLib'', StarImport ''version'', Import ''lsst.meas.base'',
                     Call KronFlux_call] \<and>
         globals sf ''lsst'' = Some (Module ''lsst'') \<and>
         Del ''lsst'' \<notin> set (trace sf)"
    unfolding KronFlux_call_def by blast
  with a b c show ?thesis by blast
qed

text \<open>
  C7. After the import completes, the name \<^verbatim>\<open>lsst\<close>, which
  \<^verbatim>\<open>import lsst.meas.base\<close> bound, is not among the module's attributes.
\<close>

theorem lsst_not_exposed:
  assumes "import_module env mods reg = Inr s'"
  shows "globals s' ''lsst'' = None"
  using assms unfolding import_module_Inr by (auto simp: final_fields)

theorem lsst_not_exposed_witness:
  "import_module (usual_env appending_host) Map.empty [] = Inr (usual_final appending_host) \<and>
   globals (usual_final appending_host) ''lsst'' = None"
proof -
  have run: "import_module (usual_env appending_host) Map.empty [] = Inr (usual_final appending_host)"
    by (rule usual_run) (simp add: appending_host_def)
  from run lsst_not_exposed [OF run] show ?thesis by simp
qed

text \<open>
  C8. The effects of the import come in one order: the symbols of kronLib, the symbols
  of version, the import of the framework, the registration call, the removal of the
  name \<^verbatim>\<open>lsst\<close>. A run that completes has made all five, in that order; a run that
  fails has made the first few of them, in that order, and none of the rest.
\<close>

theorem effects_in_spec_order:
  "(\<forall>s'. import_module env mods reg = Inr s' \<longrightarrow> (\<exists>a c. trace s' = spec_order a c)) \<and>
   (\<forall>e sf. import_module env mods reg = Inl (e, sf) \<longrightarrow>
      (\<exists>a c. strict_prefix (trace sf) (spec_order a c)))"
proof (intro conjI allI impI)
  fix s' assume "import_module env mods reg = Inr s'"
  from success_shape [OF this] show "\<exists>a c. trace s' = spec_order a c" by blast
next
  fix e sf assume "import_module env mods reg = Inl (e, sf)"
  from failure_shape [OF this]
  consider "trace sf = []" | "trace sf = [StarImport ''kronLib'']"
    | "trace sf = [StarImport ''kronLib'', StarImport ''version'']"
    | "trace sf = [StarImport ''kronLib'', StarImport ''version'', Import ''lsst.meas.base'']"
    | a c where "trace sf = [StarImport ''kronLib'', StarImport ''version'',
        Import ''lsst.meas.base'', Call (the_call a c)]"
    by blast
  then show "\<exists>a c. strict_prefix (trace sf) (spec_order a c)"
  proof cases
    case 5
    then have "strict_prefix (trace sf) (spec_order a c)"
      by (simp add: spec_order_def)
    then show ?thesis by blast
  qed (simp_all add: spec_order_def)
qed

theorem effects_in_spec_order_witness:
  "import_module (usual_env appending_host) Map.empty [] = Inr (usual_final appending_host) \<and>
   (\<exists>a c. trace (usual_final appending_host) = spec_order a c) \<and>
   (\<exists>sf. import_module (usual_env rejecting_host) Map.empty []
           = Inl (RegistrationError ''rejected'', sf) \<and>
         (\<exists>a c. strict_prefix (trace sf) (spec_order a c)))"
proof -
  note ok = effects_in_spec_order [of "usual_env appending_host" Map.empty "[]", THEN conjunct1,
              rule_format, OF appending_run]
  note bad = effects_in_spec_order [of "usual_env rejecting_host" Map.empty "[]", THEN conjunct2,
               rule_format]
  from rejecting_run bad
  have "\<exists>sf. import_module (usual_env rejecting_host) Map.empty []
           = Inl (RegistrationError ''rejected'', sf) \<and>
         (\<exists>a c. strict_prefix (trace sf) (spec_order a c))"
    by blast
  with appending_run ok show ?thesis by blast
qed

text \<open>
  C9. The deletion removes the binding of \<^verbatim>\<open>lsst\<close> in the module's namespace and
  nothing else: the registry and the loaded modules are as the deletion found them. So
  after the import the registry is the one the registration call returned, and
  \<^verbatim>\<open>lsst.meas.base\<close> is still loaded.
\<close>

theorem del_leaves_registry_and_modules:
  "(\<forall>s t. del_name ''lsst'' s = Inr t \<longrightarrow>
      registry t = registry s \<and> sys_modules t = sys_modules s \<and>
      globals t = (globals s)(''lsst'' := None)) \<and>
   (\<forall>s'. import_module env mods reg = Inr s' \<longrightarrow>
      globals s' ''lsst'' = None \<and>
      sys_modules s' ''lsst.meas.base'' \<noteq> None \<and>
      (\<exists>f c ret. lsst_meas_base env = Inr (Some f) \<and>
         name c = ''ext_photometryKron_KronFlux'' \<and> calls (trace s') = [c] \<and>
         f c reg = Inr (ret, registry s')))"
proof (intro conjI allI impI)
  fix s t assume d: "del_name ''lsst'' s = Inr t"
  then have t: "t = s\<lparr>globals := (globals s)(''lsst'' := None), trace := trace s @ [Del ''lsst'']\<rparr>"
    by (cases "globals s ''lsst''") (simp_all add: del_name_def)
  show "registry t = registry s" "sys_modules t = sys_modules s"
    "globals t = (globals s)(''lsst'' := None)"
    by (simp_all add: t)
next
  fix s' assume run: "import_module env mods reg = Inr s'"
  then obtain kx v f a c r where
    s': "s' = after_del (after_call (after_imports kx v (Some f) mods reg) (the_call a c) r)"
    unfolding import_module_Inr by blast
  show "globals s' ''lsst'' = None" "sys_modules s' ''lsst.meas.base'' \<noteq> None"
    by (simp_all add: s' final_fields)
  from success_shape [OF run]
  show "\<exists>f c ret. lsst_meas_base env = Inr (Some f) \<and>
         name c = ''ext_photometryKron_KronFlux'' \<and> calls (trace s') = [c] \<and>
         f c reg = Inr (ret, registry s')"
    by (fastforce simp: the_call_fields)
qed

theorem del_leaves_registry_and_modules_witness:
  "del_name ''lsst''
     (after_call (after_imports KronFlux_exports ''10.1'' (Some appending_host) Map.empty [])
        KronFlux_call [KronFlux_call]) = Inr (usual_final appending_host) \<and>
   registry (usual_final appending_host) = [KronFlux_call] \<and>
   import_module (usual_env appending_host) Map.empty [] = Inr (usual_final appending_host) \<and>
   globals (usual_final appending_host) ''lsst'' = None \<and>
   sys_modules (usual_final appending_host) ''lsst.meas.base'' \<noteq> None"
proof -
  have d: "del_name ''lsst''
     (after_call (after_imports KronFlux_exports ''10.1'' (Some appending_host) Map.empty [])
        KronFlux_call [KronFlux_call]) = Inr (usual_final appending_host)"
    by (simp add: del_after_call usual_final_def)
  note frame = del_leaves_registry_and_modules [of "usual_env appending_host" Map.empty "[]",
                 THEN conjunct1, rule_format, OF d]
  note kept = del_leaves_registry_and_modules [of "usual_env appending_host" Map.empty "[]",
                THEN conjunct2, rule_format, OF appending_run]
  from frame have "registry (usual_final appending_host) = [KronFlux_call]"
    by (simp add: stage_fields)
  with d appending_run kept show ?thesis by blast
qed



end
